theory Spec2Isabelle
  imports Main "HOL-Library.Word"
begin

section \<open>Values of the host language\<close>

text \<open>
  A JavaScript string is a sequence of UTF-16 code units; a \<open>Uint8Array\<close> is a sequence
  of bytes. \<open>js\<close> reads an ASCII literal of the source as such a string.
\<close>

type_synonym code_unit = "16 word"
type_synonym jsstring = "code_unit list"
type_synonym byte = "8 word"

definition js :: "string \<Rightarrow> jsstring" where
  "js s = map of_char s"

text \<open>
  A thrown value is either an \<open>Error\<close> object (it has a \<open>message\<close>) or anything else;
  the handlers' \<open>catch\<close> blocks distinguish the two with \<open>instanceof Error\<close>.
\<close>

datatype js_error = ErrorObj jsstring | NonError

text \<open>\<open>FileData\<close> of the engine: what \<open>readFile\<close> resolves to.\<close>

datatype filedata = FString jsstring | FBytes "byte list"

text \<open>A \<open>File\<close> picked by the user, and a \<open>Blob\<close> with its MIME type.\<close>

record js_file =
  file_name :: jsstring
  file_bytes :: "byte list"

record blob =
  blob_parts :: "byte list"
  blob_type :: jsstring

text \<open>An async function settles as fulfilled or as rejected with the thrown value.\<close>

datatype promise = Fulfilled | Rejected js_error

section \<open>The external collaborators\<close>

text \<open>
  The transcoding engine (\<open>@ffmpeg/ffmpeg\<close>), \<open>fetchFile\<close> (\<open>@ffmpeg/util\<close>) and
  \<open>TextEncoder\<close> are not code of this repository. They are a parameter of every
  handler: a record of operations over an engine state \<open>'e\<close>. Each engine operation
  may throw, and may change the engine's state whether it throws or not. \<open>exec\<close>
  resolves to the exit status of the command.
\<close>

record 'e platform =
  fetchFile :: "js_file \<Rightarrow> js_error + byte list"
  writeFile :: "jsstring \<Rightarrow> byte list \<Rightarrow> 'e \<Rightarrow> js_error option \<times> 'e"
  exec :: "jsstring list \<Rightarrow> 'e \<Rightarrow> (js_error + int) \<times> 'e"
  readFile :: "jsstring \<Rightarrow> 'e \<Rightarrow> (js_error + filedata) \<times> 'e"
  deleteFile :: "jsstring \<Rightarrow> 'e \<Rightarrow> js_error option \<times> 'e"
  encode :: "jsstring \<Rightarrow> byte list"

text \<open>The engine calls a handler makes, in order (a ghost trace kept beside the state).\<close>

datatype call =
    WriteFile jsstring "byte list"
  | Exec "jsstring list"
  | ReadFile jsstring
  | DeleteFile jsstring

section \<open>The component state\<close>

text \<open>
  The \<open>useState\<close> cells of \<open>App\<close>, the \<open>loading\<close> flag of \<open>useLoadFFmpeg\<close> as \<open>App\<close>
  sees it (\<open>ffmpegLoading\<close>), the console, the engine behind \<open>ffmpegRef\<close>, and the trace.
  \<open>outputUrl\<close> holds the object URL of a blob; the URL is opaque, so the model keeps
  the blob it refers to.
\<close>

record 'e app =
  loading :: bool
  message :: jsstring
  videoFile :: "js_file option"
  lyrics :: jsstring
  outputUrl :: "blob option"
  ffmpegLoading :: bool
  console :: "(jsstring \<times> js_error) list"
  engine :: "'e"
  calls :: "call list"

definition setLoading :: "bool \<Rightarrow> 'e app \<Rightarrow> 'e app" where
  "setLoading b s = s\<lparr>loading := b\<rparr>"

definition setMessage :: "jsstring \<Rightarrow> 'e app \<Rightarrow> 'e app" where
  "setMessage m s = s\<lparr>message := m\<rparr>"

definition setOutputUrl :: "blob option \<Rightarrow> 'e app \<Rightarrow> 'e app" where
  "setOutputUrl u s = s\<lparr>outputUrl := u\<rparr>"

definition console_error :: "jsstring \<Rightarrow> js_error \<Rightarrow> 'e app \<Rightarrow> 'e app" where
  "console_error label e s = s\<lparr>console := console s @ [(label, e)]\<rparr>"

text \<open>The engine operations as the handlers call them on \<open>ffmpegRef.current\<close>.\<close>

definition ffmpeg_writeFile ::
  "'e platform \<Rightarrow> jsstring \<Rightarrow> byte list \<Rightarrow> 'e app \<Rightarrow> js_error option \<times> 'e app" where
  "ffmpeg_writeFile P name bytes s =
     (case writeFile P name bytes (engine s) of
        (r, e') \<Rightarrow> (r, s\<lparr>engine := e', calls := calls s @ [WriteFile name bytes]\<rparr>))"

definition ffmpeg_exec ::
  "'e platform \<Rightarrow> jsstring list \<Rightarrow> 'e app \<Rightarrow> (js_error + int) \<times> 'e app" where
  "ffmpeg_exec P args s =
     (case exec P args (engine s) of
        (r, e') \<Rightarrow> (r, s\<lparr>engine := e', calls := calls s @ [Exec args]\<rparr>))"

definition ffmpeg_readFile ::
  "'e platform \<Rightarrow> jsstring \<Rightarrow> 'e app \<Rightarrow> (js_error + filedata) \<times> 'e app" where
  "ffmpeg_readFile P name s =
     (case readFile P name (engine s) of
        (r, e') \<Rightarrow> (r, s\<lparr>engine := e', calls := calls s @ [ReadFile name]\<rparr>))"

definition ffmpeg_deleteFile ::
  "'e platform \<Rightarrow> jsstring \<Rightarrow> 'e app \<Rightarrow> js_error option \<times> 'e app" where
  "ffmpeg_deleteFile P name s =
     (case deleteFile P name (engine s) of
        (r, e') \<Rightarrow> (r, s\<lparr>engine := e', calls := calls s @ [DeleteFile name]\<rparr>))"

section \<open>String literals of the source\<close>

definition msg_need_file :: jsstring where
  "msg_need_file = [0x8BF7, 0x5148, 0x9009, 0x62E9, 0x6587, 0x4EF6, 0x5E76, 0x52A0, 0x8F7D,
     0x20, 0x46, 0x46, 0x6D, 0x70, 0x65, 0x67]"

definition msg_extract_start :: jsstring where
  "msg_extract_start = [0x6B63, 0x5728, 0x63D0, 0x53D6, 0x89C6, 0x9891, 0x7B2C, 0x4E00,
     0x5E27, 0x4F5C, 0x4E3A, 0x5C01, 0x9762, 0x2E, 0x2E, 0x2E]"

definition msg_extract_frame :: jsstring where
  "msg_extract_frame = [0x6B63, 0x5728, 0x63D0, 0x53D6, 0x89C6, 0x9891, 0x7B2C, 0x4E00,
     0x5E27, 0x2E, 0x2E, 0x2E]"

definition msg_extract_mp3 :: jsstring where
  "msg_extract_mp3 = [0x6B63, 0x5728, 0x751F, 0x6210, 0x20, 0x4D, 0x50, 0x33, 0x20, 0x6587,
     0x4EF6, 0xFF08, 0x5D4C, 0x5165, 0x5C01, 0x9762, 0x548C, 0x6B4C, 0x8BCD, 0xFF09,
     0x2E, 0x2E, 0x2E]"

definition msg_extract_ok :: jsstring where
  "msg_extract_ok = [0x97F3, 0x9891, 0x63D0, 0x53D6, 0x6210, 0x529F, 0xFF01, 0x5DF2, 0x5D4C,
     0x5165, 0x5C01, 0x9762, 0x548C, 0x6B4C, 0x8BCD]"

definition label_extract_failed :: jsstring where
  "label_extract_failed = [0x63D0, 0x53D6, 0x97F3, 0x9891, 0x5931, 0x8D25, 0x3A]"

definition msg_extract_failed :: jsstring where
  "msg_extract_failed = [0x63D0, 0x53D6, 0x97F3, 0x9891, 0x5931, 0x8D25, 0x3A, 0x20]"

definition msg_unknown_error :: jsstring where
  "msg_unknown_error = [0x672A, 0x77E5, 0x9519, 0x8BEF]"

definition msg_gif_start :: jsstring where
  "msg_gif_start = [0x6B63, 0x5728, 0x8F6C, 0x6362, 0x4E3A, 0x20, 0x47, 0x49, 0x46,
     0x2E, 0x2E, 0x2E]"

definition msg_gif_ok :: jsstring where
  "msg_gif_ok = [0x47, 0x49, 0x46, 0x20, 0x8F6C, 0x6362, 0x6210, 0x529F, 0xFF01]"

definition label_gif_failed :: jsstring where
  "label_gif_failed = [0x8F6C, 0x6362, 0x5931, 0x8D25, 0x3A]"

definition msg_gif_failed :: jsstring where
  "msg_gif_failed = [0x8F6C, 0x6362, 0x5931, 0x8D25, 0x3A, 0x20]"

text \<open>\<open>error instanceof Error ? error.message : "..."\<close> of both \<open>catch\<close> blocks.\<close>

definition error_text :: "js_error \<Rightarrow> jsstring" where
  "error_text e = (case e of ErrorObj m \<Rightarrow> m | NonError \<Rightarrow> msg_unknown_error)"

section \<open>Materialising the output\<close>

text \<open>
  Both handlers turn the \<open>FileData\<close> read back into a \<open>Uint8Array\<close>: a string goes
  through \<open>new TextEncoder().encode\<close>, a \<open>Uint8Array\<close> is copied element by element.
\<close>

definition toUint8Array :: "'e platform \<Rightarrow> filedata \<Rightarrow> byte list" where
  "toUint8Array P data = (case data of FString str \<Rightarrow> encode P str | FBytes arr \<Rightarrow> map id arr)"

definition new_Blob :: "byte list \<Rightarrow> jsstring \<Rightarrow> blob" where
  "new_Blob bytes ty = \<lparr>blob_parts = bytes, blob_type = ty\<rparr>"

section \<open>handleConvertToGif\<close>

definition gif_args :: "jsstring list" where
  "gif_args = map js [''-i'', ''input.mp4'', ''-t'', ''5.0'', ''-ss'', ''0.0'', ''-vf'',
     ''fps=10,scale=320:-1'', ''output.gif'']"

text \<open>
  The \<open>try\<close> block. The result is the thrown value, if any, with the state reached when
  it was thrown: what the engine and the setters did before stays done.
\<close>

definition convert_try :: "'e platform \<Rightarrow> js_file \<Rightarrow> 'e app \<Rightarrow> js_error option \<times> 'e app" where
  "convert_try P f s0 =
    (case fetchFile P f of
       Inl e \<Rightarrow> (Some e, s0)
     | Inr bytes \<Rightarrow>
    (case ffmpeg_writeFile P (js ''input.mp4'') bytes s0 of
       (Some e, s1) \<Rightarrow> (Some e, s1)
     | (None, s1) \<Rightarrow>
    (case ffmpeg_exec P gif_args s1 of
       (Inl e, s2) \<Rightarrow> (Some e, s2)
     | (Inr status, s2) \<Rightarrow>
    (case ffmpeg_readFile P (js ''output.gif'') s2 of
       (Inl e, s3) \<Rightarrow> (Some e, s3)
     | (Inr data, s3) \<Rightarrow>
    (let uint8Array = toUint8Array P data;
         url = new_Blob uint8Array (js ''image/gif'');
         s4 = setMessage msg_gif_ok (setOutputUrl (Some url) s3)
     in
    (case ffmpeg_deleteFile P (js ''input.mp4'') s4 of
       (Some e, s5) \<Rightarrow> (Some e, s5)
     | (None, s5) \<Rightarrow>
    (case ffmpeg_deleteFile P (js ''output.gif'') s5 of
       (Some e, s6) \<Rightarrow> (Some e, s6)
     | (None, s6) \<Rightarrow> (None, s6))))))))"

definition handleConvertToGif :: "'e platform \<Rightarrow> 'e app \<Rightarrow> promise \<times> 'e app" where
  "handleConvertToGif P s =
    (case videoFile s of
       None \<Rightarrow> (Fulfilled, setMessage msg_need_file s)
     | Some f \<Rightarrow>
         if ffmpegLoading s then (Fulfilled, setMessage msg_need_file s)
         else
           (case convert_try P f (setMessage msg_gif_start (setLoading True s)) of
              (None, s') \<Rightarrow> (Fulfilled, setLoading False s')
            | (Some e, s') \<Rightarrow>
                (Fulfilled,
                 setLoading False
                   (setMessage (msg_gif_failed @ error_text e)
                      (console_error label_gif_failed e s')))))"

section \<open>handleExtractAudio\<close>

text \<open>
  \<open>String.prototype.trim\<close> removes the white space and line terminator code units of
  ECMAScript from both ends.
\<close>

definition isWhiteSpace :: "code_unit \<Rightarrow> bool" where
  "isWhiteSpace c =
     (c \<in> {0x09, 0x0A, 0x0B, 0x0C, 0x0D, 0x20, 0xA0, 0x1680, 0x2028, 0x2029, 0x202F,
            0x205F, 0x3000, 0xFEFF}
      \<or> (0x2000 \<le> c \<and> c \<le> 0x200A))"

definition trim :: "jsstring \<Rightarrow> jsstring" where
  "trim s = rev (dropWhile isWhiteSpace (rev (dropWhile isWhiteSpace s)))"

text \<open>
  \<open>s.replace(/c/g, r)\<close> for a one-character pattern \<open>c\<close> and a replacement \<open>r\<close> without
  \<open>$\<close>: every occurrence of \<open>c\<close> becomes \<open>r\<close>.
\<close>

definition replace_all :: "code_unit \<Rightarrow> jsstring \<Rightarrow> jsstring \<Rightarrow> jsstring" where
  "replace_all c r s = concat (map (\<lambda>x. if x = c then r else [x]) s)"

definition quote :: code_unit where "quote = 0x22"
definition newline :: code_unit where "newline = 0x0A"
definition backslash :: code_unit where "backslash = 0x5C"
definition letter_n :: code_unit where "letter_n = 0x6E"

text \<open>\<open>lrcContent.replace(/"/g, '\\"').replace(/\n/g, "\\n")\<close>\<close>

definition escapedLyrics :: "jsstring \<Rightarrow> jsstring" where
  "escapedLyrics lrcContent =
     replace_all newline [backslash, letter_n]
       (replace_all quote [backslash, quote] lrcContent)"

definition cover_args :: "jsstring list" where
  "cover_args = map js [''-i'', ''input.mp4'', ''-ss'', ''0'', ''-vframes'', ''1'', ''-vf'',
     ''scale=500:-1'', ''cover.jpg'']"

definition mp3_base_args :: "jsstring list" where
  "mp3_base_args = map js [''-i'', ''input.mp4'', ''-i'', ''cover.jpg'', ''-map'', ''0:a'',
     ''-map'', ''1'', ''-c:a'', ''libmp3lame'', ''-ab'', ''192k'', ''-c:v:1'', ''mjpeg'',
     ''-disposition:v:1'', ''attached_pic'', ''-id3v2_version'', ''3'']"

text \<open>The argument list \<open>args\<close> once every \<open>push\<close> is done.\<close>

definition mp3_args :: "jsstring \<Rightarrow> jsstring list" where
  "mp3_args lyr =
     mp3_base_args
     @ (if trim lyr = [] then []
        else [js ''-metadata'', js ''LYRICS='' @ escapedLyrics (trim lyr),
              js ''-metadata'', js ''USLT='' @ escapedLyrics (trim lyr)])
     @ [js ''output.mp3'']"

definition extract_try :: "'e platform \<Rightarrow> js_file \<Rightarrow> 'e app \<Rightarrow> js_error option \<times> 'e app" where
  "extract_try P f s0 =
    (case fetchFile P f of
       Inl e \<Rightarrow> (Some e, s0)
     | Inr bytes \<Rightarrow>
    (case ffmpeg_writeFile P (js ''input.mp4'') bytes s0 of
       (Some e, s1) \<Rightarrow> (Some e, s1)
     | (None, s1) \<Rightarrow>
    (case ffmpeg_exec P cover_args (setMessage msg_extract_frame s1) of
       (Inl e, s2) \<Rightarrow> (Some e, s2)
     | (Inr status1, s2) \<Rightarrow>
    (case ffmpeg_exec P (mp3_args (lyrics s0)) (setMessage msg_extract_mp3 s2) of
       (Inl e, s3) \<Rightarrow> (Some e, s3)
     | (Inr status2, s3) \<Rightarrow>
    (case ffmpeg_readFile P (js ''output.mp3'') s3 of
       (Inl e, s4) \<Rightarrow> (Some e, s4)
     | (Inr data, s4) \<Rightarrow>
    (let uint8Array = toUint8Array P data;
         url = new_Blob uint8Array (js ''audio/mp3'');
         s5 = setMessage msg_extract_ok (setOutputUrl (Some url) s4)
     in
    (case ffmpeg_deleteFile P (js ''input.mp4'') s5 of
       (Some e, s6) \<Rightarrow> (Some e, s6)
     | (None, s6) \<Rightarrow>
    (case ffmpeg_deleteFile P (js ''output.mp3'') s6 of
       (Some e, s7) \<Rightarrow> (Some e, s7)
     | (None, s7) \<Rightarrow>
    (case ffmpeg_deleteFile P (js ''cover.jpg'') s7 of
       (Some e, s8) \<Rightarrow> (Some e, s8)
     | (None, s8) \<Rightarrow> (None, s8))))))))))"

definition handleExtractAudio :: "'e platform \<Rightarrow> 'e app \<Rightarrow> promise \<times> 'e app" where
  "handleExtractAudio P s =
    (case videoFile s of
       None \<Rightarrow> (Fulfilled, setMessage msg_need_file s)
     | Some f \<Rightarrow>
         if ffmpegLoading s then (Fulfilled, setMessage msg_need_file s)
         else
           (case extract_try P f (setMessage msg_extract_start (setLoading True s)) of
              (None, s') \<Rightarrow> (Fulfilled, setLoading False s')
            | (Some e, s') \<Rightarrow>
                (Fulfilled,
                 setLoading False
                   (setMessage (msg_extract_failed @ error_text e)
                      (console_error label_extract_failed e s')))))"

section \<open>A sample engine\<close>

text \<open>
  For the closed examples below: an in-memory file store in the manner of the engine's
  own (writing stores the bytes, reading or deleting a missing name throws), driven by
  a stand-in for the transcoder. \<open>core_ok\<close> writes three bytes under the last argument
  and exits with 0; \<open>core_throw\<close> throws; \<open>core_exit1\<close> exits with 1 and writes nothing,
  as a transcoder does that cannot decode its input.
\<close>

type_synonym memfs = "(jsstring \<times> filedata) list"

definition no_such_file :: js_error where
  "no_such_file = ErrorObj (js ''ErrnoError: FS error'')"

definition core_ok :: "jsstring list \<Rightarrow> memfs \<Rightarrow> (js_error + int) \<times> memfs" where
  "core_ok args fs = (Inr 0, (last args, FBytes [1, 2, 3]) # filter (\<lambda>kv. fst kv \<noteq> last args) fs)"

definition core_throw :: "jsstring list \<Rightarrow> memfs \<Rightarrow> (js_error + int) \<times> memfs" where
  "core_throw args fs = (Inl (ErrorObj (js ''called FFmpeg.terminate()'')), fs)"

definition core_exit1 :: "jsstring list \<Rightarrow> memfs \<Rightarrow> (js_error + int) \<times> memfs" where
  "core_exit1 args fs = (Inr 1, fs)"

text \<open>\<open>core_text\<close> leaves its output as a string, the other shape \<open>readFile\<close> may return.\<close>

definition core_text :: "jsstring list \<Rightarrow> memfs \<Rightarrow> (js_error + int) \<times> memfs" where
  "core_text args fs =
     (Inr 0, (last args, FString [0x47, 0x49, 0x46, 0xE9]) # filter (\<lambda>kv. fst kv \<noteq> last args) fs)"

text \<open>UTF-8 for the sample \<open>TextEncoder\<close>: a lone surrogate encodes as U+FFFD.\<close>

definition is_lead :: "code_unit \<Rightarrow> bool" where
  "is_lead u = (0xD800 \<le> u \<and> u \<le> 0xDBFF)"

definition is_trail :: "code_unit \<Rightarrow> bool" where
  "is_trail u = (0xDC00 \<le> u \<and> u \<le> 0xDFFF)"

definition scalar :: "code_unit \<Rightarrow> nat" where
  "scalar u = (if is_lead u \<or> is_trail u then 0xFFFD else unat u)"

fun code_points :: "jsstring \<Rightarrow> nat list" where
  "code_points [] = []"
| "code_points [u] = [scalar u]"
| "code_points (u # v # r) =
     (if is_lead u \<and> is_trail v
      then (0x10000 + (unat u - 0xD800) * 0x400 + (unat v - 0xDC00)) # code_points r
      else scalar u # code_points (v # r))"

definition utf8 :: "nat \<Rightarrow> byte list" where
  "utf8 cp =
     (if cp < 0x80 then [of_nat cp]
      else if cp < 0x800 then [of_nat (0xC0 + cp div 0x40), of_nat (0x80 + cp mod 0x40)]
      else if cp < 0x10000 then
        [of_nat (0xE0 + cp div 0x1000), of_nat (0x80 + cp div 0x40 mod 0x40),
         of_nat (0x80 + cp mod 0x40)]
      else
        [of_nat (0xF0 + cp div 0x40000), of_nat (0x80 + cp div 0x1000 mod 0x40),
         of_nat (0x80 + cp div 0x40 mod 0x40), of_nat (0x80 + cp mod 0x40)])"

definition memfs_platform ::
  "(jsstring list \<Rightarrow> memfs \<Rightarrow> (js_error + int) \<times> memfs) \<Rightarrow> memfs platform" where
  "memfs_platform core =
     \<lparr>fetchFile = (\<lambda>f. Inr (file_bytes f)),
      writeFile = (\<lambda>name bytes fs. (None, (name, FBytes bytes) # filter (\<lambda>kv. fst kv \<noteq> name) fs)),
      exec = core,
      readFile = (\<lambda>name fs. (case map_of fs name of None \<Rightarrow> Inl no_such_file | Some d \<Rightarrow> Inr d, fs)),
      deleteFile = (\<lambda>name fs.
         if name \<in> fst ` set fs then (None, filter (\<lambda>kv. fst kv \<noteq> name) fs)
         else (Some no_such_file, fs)),
      encode = (\<lambda>str. concat (map utf8 (code_points str)))\<rparr>"

text \<open>A state in which a three-byte file is selected and the engine is idle.\<close>

definition sample_app :: "jsstring \<Rightarrow> memfs app" where
  "sample_app lyr =
     \<lparr>loading = False, message = [], videoFile = Some \<lparr>file_name = js ''a.mp4'', file_bytes = [7, 8, 9]\<rparr>,
      lyrics = lyr, outputUrl = None, ffmpegLoading = False, console = [],
      engine = [], calls = []\<rparr>"

text \<open>The lyrics of the spec's scenario B: two timed lines separated by a newline.\<close>

definition scenario_B_lyrics :: jsstring where
  "scenario_B_lyrics = js ''[00:00.00]hello'' @ [newline] @ js ''[00:05.00]world''"

section \<open>useLoadFFmpeg\<close>

text \<open>
  The hook's own state: its \<open>loading\<close> cell, the events registered with \<open>ffmpeg.on\<close>,
  how many times \<open>ffmpeg.load\<close> has been invoked, and what \<open>console.error\<close> received
  (\<open>console.log\<close> is left out). The hook invokes \<open>loadFFmpeg\<close> from an effect when
  \<open>autoLoad\<close> holds, and returns it to its caller, who may invoke it again.
\<close>

record hook =
  hook_loading :: bool
  listeners :: "jsstring list"
  load_calls :: nat
  hook_console :: "js_error list"

text \<open>
  \<open>loadFFmpeg\<close> is an async function: it runs until an \<open>await\<close>, gives control back, and
  goes on when the awaited promise settles. One invocation is at one of these points:
  not yet started, awaiting the first or the second \<open>toBlobURL\<close>, awaiting
  \<open>ffmpeg.load\<close>, or settled.
\<close>

datatype pc = NotStarted | AwaitCoreURL | AwaitWasmURL | AwaitLoad | Settled promise

text \<open>The \<open>catch\<close> block followed by the \<open>finally\<close> block.\<close>

definition load_catch :: "js_error \<Rightarrow> hook \<Rightarrow> hook" where
  "load_catch e h = h\<lparr>hook_console := hook_console h @ [e], hook_loading := False\<rparr>"

text \<open>
  One invocation runs from its current point to its next \<open>await\<close>; \<open>r\<close> is how the
  promise it was awaiting has settled (\<open>None\<close>: fulfilled).
\<close>

definition loadFFmpeg_step :: "js_error option \<Rightarrow> pc \<Rightarrow> hook \<Rightarrow> pc \<times> hook" where
  "loadFFmpeg_step r p h =
     (case p of
        NotStarted \<Rightarrow>
          (AwaitCoreURL,
           h\<lparr>hook_loading := True, listeners := listeners h @ [js ''log'', js ''progress'']\<rparr>)
      | AwaitCoreURL \<Rightarrow>
          (case r of None \<Rightarrow> (AwaitWasmURL, h)
                   | Some e \<Rightarrow> (Settled Fulfilled, load_catch e h))
      | AwaitWasmURL \<Rightarrow>
          (case r of None \<Rightarrow> (AwaitLoad, h\<lparr>load_calls := load_calls h + 1\<rparr>)
                   | Some e \<Rightarrow> (Settled Fulfilled, load_catch e h))
      | AwaitLoad \<Rightarrow>
          (case r of None \<Rightarrow> (Settled Fulfilled, h\<lparr>hook_loading := False\<rparr>)
                   | Some e \<Rightarrow> (Settled Fulfilled, load_catch e h))
      | Settled q \<Rightarrow> (Settled q, h))"

text \<open>
  Several invocations in flight share the hook's state. An event \<open>(i, r)\<close> lets
  invocation \<open>i\<close> run its next segment; a schedule is a list of events.
\<close>

definition run_event :: "nat \<times> js_error option \<Rightarrow> hook \<times> pc list \<Rightarrow> hook \<times> pc list" where
  "run_event ev st =
     (case ev of (i, r) \<Rightarrow> (case st of (h, ts) \<Rightarrow>
        if i < length ts
        then (case loadFFmpeg_step r (ts ! i) h of (p', h') \<Rightarrow> (h', ts[i := p']))
        else (h, ts)))"

definition run_schedule ::
  "(nat \<times> js_error option) list \<Rightarrow> hook \<times> pc list \<Rightarrow> hook \<times> pc list" where
  "run_schedule evs st = fold run_event evs st"

definition hook_init :: hook where
  "hook_init = \<lparr>hook_loading = False, listeners = [], load_calls = 0, hook_console = []\<rparr>"

text \<open>How many invocations are awaiting their \<open>ffmpeg.load\<close>, and how many have settled.\<close>

definition awaiting_load :: "pc list \<Rightarrow> nat" where
  "awaiting_load ts = length (filter (\<lambda>p. p = AwaitLoad) ts)"

definition is_settled :: "pc \<Rightarrow> bool" where
  "is_settled p = (case p of Settled q \<Rightarrow> True | _ \<Rightarrow> False)"

definition settled :: "pc list \<Rightarrow> nat" where
  "settled ts = length (filter is_settled ts)"

section \<open>Reading escaped lyrics back\<close>

text \<open>
  The source has no reader for what it escapes. \<open>unescape\<close> is the reader the spec's
  round-trip law has in mind: from left to right, a backslash followed by a quote is a
  quote and a backslash followed by the letter n is a newline.
\<close>

fun unescape :: "jsstring \<Rightarrow> jsstring" where
  "unescape [] = []"
| "unescape [c] = [c]"
| "unescape (c # d # r) =
     (if c = backslash \<and> d = quote then quote # unescape r
      else if c = backslash \<and> d = letter_n then newline # unescape r
      else c # unescape (d # r))"

text \<open>
  Two lyrics texts, each with a quote and a newline, neither with white space at an
  end. They differ in one place: the first has a backslash and the letter n where the
  second has a newline.
\<close>

definition lyrics_backslash_n :: jsstring where
  "lyrics_backslash_n =
     [quote] @ js ''a'' @ [newline] @ js ''b'' @ [backslash, letter_n] @ js ''c''"

definition lyrics_two_newlines :: jsstring where
  "lyrics_two_newlines = [quote] @ js ''a'' @ [newline] @ js ''b'' @ [newline] @ js ''c''"

section \<open>Facts about the engine wrappers\<close>

lemma ffmpeg_writeFile_eq:
  "ffmpeg_writeFile P name bytes s =
     (fst (writeFile P name bytes (engine s)),
      s\<lparr>engine := snd (writeFile P name bytes (engine s)),
        calls := calls s @ [WriteFile name bytes]\<rparr>)"
  by (simp add: ffmpeg_writeFile_def split: prod.split)

lemma ffmpeg_exec_eq:
  "ffmpeg_exec P args s =
     (fst (exec P args (engine s)),
      s\<lparr>engine := snd (exec P args (engine s)), calls := calls s @ [Exec args]\<rparr>)"
  by (simp add: ffmpeg_exec_def split: prod.split)

lemma ffmpeg_readFile_eq:
  "ffmpeg_readFile P name s =
     (fst (readFile P name (engine s)),
      s\<lparr>engine := snd (readFile P name (engine s)), calls := calls s @ [ReadFile name]\<rparr>)"
  by (simp add: ffmpeg_readFile_def split: prod.split)

lemma ffmpeg_deleteFile_eq:
  "ffmpeg_deleteFile P name s =
     (fst (deleteFile P name (engine s)),
      s\<lparr>engine := snd (deleteFile P name (engine s)), calls := calls s @ [DeleteFile name]\<rparr>)"
  by (simp add: ffmpeg_deleteFile_def split: prod.split)

lemmas ffmpeg_eqs = ffmpeg_writeFile_eq ffmpeg_exec_eq ffmpeg_readFile_eq ffmpeg_deleteFile_eq

lemmas setters = setLoading_def setMessage_def setOutputUrl_def console_error_def

section \<open>The guard of both handlers\<close>

text \<open>
  C10. While no file is selected or the engine is still loading, each handler sets the
  status message and returns: the engine is not called (the trace and the engine's
  state are unchanged), the run settles normally, and the previous output stays.
\<close>

theorem guard_returns_immediately:
  assumes "videoFile s = None \<or> ffmpegLoading s"
  shows "handleExtractAudio P s = (Fulfilled, s\<lparr>message := msg_need_file\<rparr>)
       \<and> handleConvertToGif P s = (Fulfilled, s\<lparr>message := msg_need_file\<rparr>)
       \<and> calls (snd (handleExtractAudio P s)) = calls s
       \<and> calls (snd (handleConvertToGif P s)) = calls s
       \<and> engine (snd (handleExtractAudio P s)) = engine s
       \<and> engine (snd (handleConvertToGif P s)) = engine s
       \<and> outputUrl (snd (handleExtractAudio P s)) = outputUrl s
       \<and> outputUrl (snd (handleConvertToGif P s)) = outputUrl s"
  using assms
  by (auto simp: handleExtractAudio_def handleConvertToGif_def setMessage_def
           split: option.splits)

theorem guard_returns_immediately_witness:
  "handleExtractAudio (memfs_platform core_ok) ((sample_app [])\<lparr>ffmpegLoading := True\<rparr>)
     = (Fulfilled, (sample_app [])\<lparr>ffmpegLoading := True, message := msg_need_file\<rparr>)
   \<and> calls (snd (handleConvertToGif (memfs_platform core_ok)
        ((sample_app [])\<lparr>ffmpegLoading := True\<rparr>))) = []"
  using guard_returns_immediately
          [of "(sample_app [])\<lparr>ffmpegLoading := True\<rparr>" "memfs_platform core_ok"]
  by (simp add: sample_app_def)

section \<open>The preview command\<close>

text \<open>
  C8. A preview run that gets past staging executes exactly one command, with the
  arguments of a clip of 5.0 seconds from 0.0, 10 frames per second, width 320 with the
  height following, written to \<open>output.gif\<close>; the blob it materialises has the MIME
  type \<open>image/gif\<close>.
\<close>

theorem convert_gif_arguments:
  assumes "videoFile s = Some f" and "\<not> ffmpegLoading s"
    and "fetchFile P f = Inr bytes"
    and "writeFile P (js ''input.mp4'') bytes (engine s) = (None, e1)"
  shows "(\<exists>rest. calls (snd (handleConvertToGif P s)) =
            calls s @ [WriteFile (js ''input.mp4'') bytes,
                       Exec (map js [''-i'', ''input.mp4'', ''-t'', ''5.0'', ''-ss'', ''0.0'',
                                     ''-vf'', ''fps=10,scale=320:-1'', ''output.gif''])] @ rest
          \<and> (\<forall>a. Exec a \<notin> set rest))
       \<and> (\<forall>status e2 data e3.
            exec P gif_args e1 = (Inr status, e2) \<and>
            readFile P (js ''output.gif'') e2 = (Inr data, e3) \<longrightarrow>
            (\<exists>d. outputUrl (snd (handleConvertToGif P s))
                   = Some \<lparr>blob_parts = d, blob_type = js ''image/gif''\<rparr>))"
  using assms
  by (auto simp: handleConvertToGif_def convert_try_def ffmpeg_eqs setters gif_args_def
                 new_Blob_def Let_def
           split: sum.splits option.splits prod.splits)

theorem convert_gif_arguments_witness:
  "videoFile (sample_app [] :: memfs app)
     = Some \<lparr>file_name = js ''a.mp4'', file_bytes = [7, 8, 9]\<rparr>
   \<and> \<not> ffmpegLoading (sample_app [] :: memfs app)
   \<and> (\<exists>rest. calls (snd (handleConvertToGif (memfs_platform core_ok) (sample_app []))) =
         [WriteFile (js ''input.mp4'') [7, 8, 9],
          Exec (map js [''-i'', ''input.mp4'', ''-t'', ''5.0'', ''-ss'', ''0.0'',
                        ''-vf'', ''fps=10,scale=320:-1'', ''output.gif''])] @ rest
         \<and> (\<forall>a. Exec a \<notin> set rest))
   \<and> (\<exists>d. outputUrl (snd (handleConvertToGif (memfs_platform core_ok) (sample_app [])))
             = Some \<lparr>blob_parts = d, blob_type = js ''image/gif''\<rparr>)"
proof -
  let ?P = "memfs_platform core_ok"
  let ?s = "sample_app [] :: memfs app"
  let ?f = "\<lparr>file_name = js ''a.mp4'', file_bytes = [7, 8, 9]\<rparr>"
  let ?in = "(js ''input.mp4'', FBytes [7, 8, 9])"
  let ?out = "(js ''output.gif'', FBytes [1, 2, 3])"
  have h1: "videoFile ?s = Some ?f" by (simp add: sample_app_def)
  have h2: "\<not> ffmpegLoading ?s" by (simp add: sample_app_def)
  have h3: "fetchFile ?P ?f = Inr [7, 8, 9]" by (simp add: memfs_platform_def)
  have h4: "writeFile ?P (js ''input.mp4'') [7, 8, 9] (engine ?s) = (None, [?in])"
    by (simp add: memfs_platform_def sample_app_def)
  have h5: "exec ?P gif_args [?in] = (Inr 0, [?out, ?in])" by code_simp
  have h6: "readFile ?P (js ''output.gif'') [?out, ?in] = (Inr (FBytes [1, 2, 3]), [?out, ?in])"
    by code_simp
  have c0: "calls ?s = []" by (simp add: sample_app_def)
  from convert_gif_arguments [OF h1 h2 h3 h4] h1 h2 h5 h6 c0 show ?thesis
    by (simp del: map_eq_conv)
qed

section \<open>The materialised output\<close>

text \<open>
  C9. Whatever \<open>readFile\<close> returns, a string or a byte array, the blob behind \<open>outputUrl\<close>
  holds a byte sequence: a string is encoded by the \<open>TextEncoder\<close>, a byte array is
  copied. This holds for both handlers, with the MIME type of each.
\<close>

theorem output_normalized_to_bytes:
  assumes "videoFile s = Some f" and "\<not> ffmpegLoading s"
    and "fetchFile P f = Inr bytes"
    and "writeFile P (js ''input.mp4'') bytes (engine s) = (None, e1)"
  shows "(\<forall>st e2 data e3.
            exec P gif_args e1 = (Inr st, e2) \<and>
            readFile P (js ''output.gif'') e2 = (Inr data, e3) \<longrightarrow>
            outputUrl (snd (handleConvertToGif P s)) =
              Some \<lparr>blob_parts = (case data of FString str \<Rightarrow> encode P str | FBytes arr \<Rightarrow> arr),
                    blob_type = js ''image/gif''\<rparr>)
       \<and> (\<forall>st1 e2 st2 e3 data e4.
            exec P cover_args e1 = (Inr st1, e2) \<and>
            exec P (mp3_args (lyrics s)) e2 = (Inr st2, e3) \<and>
            readFile P (js ''output.mp3'') e3 = (Inr data, e4) \<longrightarrow>
            outputUrl (snd (handleExtractAudio P s)) =
              Some \<lparr>blob_parts = (case data of FString str \<Rightarrow> encode P str | FBytes arr \<Rightarrow> arr),
                    blob_type = js ''audio/mp3''\<rparr>)"
proof (intro conjI allI impI)
  fix st e2 data e3
  assume "exec P gif_args e1 = (Inr st, e2) \<and> readFile P (js ''output.gif'') e2 = (Inr data, e3)"
  with assms show "outputUrl (snd (handleConvertToGif P s)) =
              Some \<lparr>blob_parts = (case data of FString str \<Rightarrow> encode P str | FBytes arr \<Rightarrow> arr),
                    blob_type = js ''image/gif''\<rparr>"
    by (simp add: handleConvertToGif_def convert_try_def ffmpeg_eqs setters toUint8Array_def
                  new_Blob_def Let_def split: option.splits prod.splits filedata.splits)
next
  fix st1 e2 st2 e3 data e4
  assume "exec P cover_args e1 = (Inr st1, e2) \<and>
            exec P (mp3_args (lyrics s)) e2 = (Inr st2, e3) \<and>
            readFile P (js ''output.mp3'') e3 = (Inr data, e4)"
  with assms show "outputUrl (snd (handleExtractAudio P s)) =
              Some \<lparr>blob_parts = (case data of FString str \<Rightarrow> encode P str | FBytes arr \<Rightarrow> arr),
                    blob_type = js ''audio/mp3''\<rparr>"
    by (simp add: handleExtractAudio_def extract_try_def ffmpeg_eqs setters toUint8Array_def
                  new_Blob_def Let_def split: option.splits prod.splits filedata.splits)
qed

theorem output_normalized_to_bytes_witness:
  "outputUrl (snd (handleConvertToGif (memfs_platform core_text) (sample_app []))) =
     Some \<lparr>blob_parts = [0x47, 0x49, 0x46, 0xC3, 0xA9], blob_type = js ''image/gif''\<rparr>
   \<and> outputUrl (snd (handleExtractAudio (memfs_platform core_ok) (sample_app []))) =
     Some \<lparr>blob_parts = [1, 2, 3], blob_type = js ''audio/mp3''\<rparr>"
proof -
  let ?s = "sample_app [] :: memfs app"
  let ?f = "\<lparr>file_name = js ''a.mp4'', file_bytes = [7, 8, 9]\<rparr>"
  let ?e1 = "[(js ''input.mp4'', FBytes [7, 8, 9])]"
  have h1: "videoFile ?s = Some ?f" by (simp add: sample_app_def)
  have h2: "\<not> ffmpegLoading ?s" by (simp add: sample_app_def)
  have t3: "fetchFile (memfs_platform core_text) ?f = Inr [7, 8, 9]"
    by (simp add: memfs_platform_def)
  have t4: "writeFile (memfs_platform core_text) (js ''input.mp4'') [7, 8, 9] (engine ?s)
              = (None, ?e1)"
    by (simp add: memfs_platform_def sample_app_def)
  have t5: "exec (memfs_platform core_text) gif_args ?e1
              = (Inr 0, [(js ''output.gif'', FString [0x47, 0x49, 0x46, 0xE9]),
                         (js ''input.mp4'', FBytes [7, 8, 9])])"
    by code_simp
  have t6: "readFile (memfs_platform core_text) (js ''output.gif'')
              [(js ''output.gif'', FString [0x47, 0x49, 0x46, 0xE9]),
               (js ''input.mp4'', FBytes [7, 8, 9])]
              = (Inr (FString [0x47, 0x49, 0x46, 0xE9]),
                 [(js ''output.gif'', FString [0x47, 0x49, 0x46, 0xE9]),
                  (js ''input.mp4'', FBytes [7, 8, 9])])"
    by code_simp
  have t7: "encode (memfs_platform core_text) [0x47, 0x49, 0x46, 0xE9]
              = [0x47, 0x49, 0x46, 0xC3, 0xA9]"
    by code_simp
  have gif: "outputUrl (snd (handleConvertToGif (memfs_platform core_text) ?s)) =
     Some \<lparr>blob_parts = [0x47, 0x49, 0x46, 0xC3, 0xA9], blob_type = js ''image/gif''\<rparr>"
    using output_normalized_to_bytes [OF h1 h2 t3 t4] t5 t6 t7 by simp
  have mp3: "outputUrl (snd (handleExtractAudio (memfs_platform core_ok) ?s)) =
     Some \<lparr>blob_parts = [1, 2, 3], blob_type = js ''audio/mp3''\<rparr>"
    by code_simp
  from gif mp3 show ?thesis by simp
qed

section \<open>The extraction commands\<close>

text \<open>Shared facts: the commands of an extraction run and the type of its output.\<close>

lemma set_replace_all: "set (replace_all c r s) \<subseteq> (set s - {c}) \<union> set r"
  by (auto simp: replace_all_def split: if_splits)

lemma newline_not_in_escapedLyrics: "newline \<notin> set (escapedLyrics t)"
proof -
  have "set (escapedLyrics t) \<subseteq>
          (set (replace_all quote [backslash, quote] t) - {newline}) \<union> set [backslash, letter_n]"
    unfolding escapedLyrics_def by (rule set_replace_all)
  then show ?thesis by (auto simp: newline_def backslash_def letter_n_def)
qed

lemma mp3_args_no_lyrics:
  "trim lyr = [] \<Longrightarrow> mp3_args lyr =
     map js [''-i'', ''input.mp4'', ''-i'', ''cover.jpg'', ''-map'', ''0:a'', ''-map'', ''1'',
       ''-c:a'', ''libmp3lame'', ''-ab'', ''192k'', ''-c:v:1'', ''mjpeg'',
       ''-disposition:v:1'', ''attached_pic'', ''-id3v2_version'', ''3'', ''output.mp3'']"
  by (simp add: mp3_args_def mp3_base_args_def)

lemma mp3_args_lyrics:
  "trim lyr \<noteq> [] \<Longrightarrow> mp3_args lyr =
     map js [''-i'', ''input.mp4'', ''-i'', ''cover.jpg'', ''-map'', ''0:a'', ''-map'', ''1'',
       ''-c:a'', ''libmp3lame'', ''-ab'', ''192k'', ''-c:v:1'', ''mjpeg'',
       ''-disposition:v:1'', ''attached_pic'', ''-id3v2_version'', ''3'']
     @ [js ''-metadata'', js ''LYRICS='' @ escapedLyrics (trim lyr),
        js ''-metadata'', js ''USLT='' @ escapedLyrics (trim lyr),
        js ''output.mp3'']"
  by (simp add: mp3_args_def mp3_base_args_def)

lemma extract_run_calls:
  assumes "videoFile s = Some f" and "\<not> ffmpegLoading s"
    and "fetchFile P f = Inr bytes"
    and "writeFile P (js ''input.mp4'') bytes (engine s) = (None, e1)"
    and "exec P cover_args e1 = (Inr st1, e2)"
  shows "\<exists>rest. calls (snd (handleExtractAudio P s)) =
            calls s @ [WriteFile (js ''input.mp4'') bytes, Exec cover_args,
                       Exec (mp3_args (lyrics s))] @ rest
          \<and> (\<forall>a. Exec a \<notin> set rest)"
  using assms
  by (auto simp: handleExtractAudio_def extract_try_def ffmpeg_eqs setters Let_def
           split: sum.splits option.splits prod.splits)

lemma extract_run_mime:
  assumes "videoFile s = Some f" and "\<not> ffmpegLoading s"
    and "fetchFile P f = Inr bytes"
    and "writeFile P (js ''input.mp4'') bytes (engine s) = (None, e1)"
    and "exec P cover_args e1 = (Inr st1, e2)"
    and "exec P (mp3_args (lyrics s)) e2 = (Inr st2, e3)"
    and "readFile P (js ''output.mp3'') e3 = (Inr data, e4)"
  shows "\<exists>d. outputUrl (snd (handleExtractAudio P s))
               = Some \<lparr>blob_parts = d, blob_type = js ''audio/mp3''\<rparr>"
  using assms
  by (simp add: handleExtractAudio_def extract_try_def ffmpeg_eqs setters new_Blob_def Let_def
           split: option.splits prod.splits)

lemma count_metadata:
  "length (filter (\<lambda>a. a = js ''-metadata'')
     (map js [''-i'', ''input.mp4'', ''-i'', ''cover.jpg'', ''-map'', ''0:a'', ''-map'', ''1'',
       ''-c:a'', ''libmp3lame'', ''-ab'', ''192k'', ''-c:v:1'', ''mjpeg'',
       ''-disposition:v:1'', ''attached_pic'', ''-id3v2_version'', ''3'']
     @ [js ''-metadata'', js ''LYRICS='' @ x, js ''-metadata'', js ''USLT='' @ y,
        js ''output.mp3''])) = 2"
  by (simp add: js_def)

lemma no_metadata:
  "js ''-metadata'' \<notin> set (map js [''-i'', ''input.mp4'', ''-i'', ''cover.jpg'', ''-map'', ''0:a'', ''-map'', ''1'',
       ''-c:a'', ''libmp3lame'', ''-ab'', ''192k'', ''-c:v:1'', ''mjpeg'',
       ''-disposition:v:1'', ''attached_pic'', ''-id3v2_version'', ''3'', ''output.mp3''])"
  by (simp add: js_def)

lemma replace_all_append:
  "replace_all c r (a @ b) = replace_all c r a @ replace_all c r b"
  by (simp add: replace_all_def)

lemma escapedLyrics_newline:
  "escapedLyrics (a @ [newline] @ b) = escapedLyrics a @ [backslash, letter_n] @ escapedLyrics b"
  by (simp add: escapedLyrics_def replace_all_append)
     (simp add: replace_all_def newline_def quote_def)

text \<open>
  C3, as stated: without lyrics the run takes the single-stage form and its command maps
  no cover. With empty lyrics the handler still runs the cover stage first and the
  second command still takes \<open>cover.jpg\<close> as an input and maps it (\<open>-map 1\<close>).
\<close>

theorem extract_no_lyrics_counterexample:
  "calls (snd (handleExtractAudio (memfs_platform core_ok) (sample_app []))) =
     [WriteFile (js ''input.mp4'') [7, 8, 9],
      Exec (map js [''-i'', ''input.mp4'', ''-ss'', ''0'', ''-vframes'', ''1'', ''-vf'',
                    ''scale=500:-1'', ''cover.jpg'']),
      Exec (map js [''-i'', ''input.mp4'', ''-i'', ''cover.jpg'', ''-map'', ''0:a'',
                    ''-map'', ''1'', ''-c:a'', ''libmp3lame'', ''-ab'', ''192k'', ''-c:v:1'',
                    ''mjpeg'', ''-disposition:v:1'', ''attached_pic'', ''-id3v2_version'',
                    ''3'', ''output.mp3'']),
      ReadFile (js ''output.mp3''),
      DeleteFile (js ''input.mp4''), DeleteFile (js ''output.mp3''),
      DeleteFile (js ''cover.jpg'')]"
  by code_simp

text \<open>
  C3, amended: when the lyrics are empty after trimming, the run still has two stages
  (the cover still, then the MP3 with the cover mapped as an attached picture); the
  second command has no \<open>-metadata\<close> argument, and the output has the MIME type
  \<open>audio/mp3\<close>.
\<close>

theorem extract_without_lyrics:
  assumes "videoFile s = Some f" and "\<not> ffmpegLoading s"
    and "fetchFile P f = Inr bytes"
    and "writeFile P (js ''input.mp4'') bytes (engine s) = (None, e1)"
    and "exec P cover_args e1 = (Inr st1, e2)"
    and "trim (lyrics s) = []"
  shows "(\<exists>rest. calls (snd (handleExtractAudio P s)) =
            calls s @
            [WriteFile (js ''input.mp4'') bytes,
             Exec (map js [''-i'', ''input.mp4'', ''-ss'', ''0'', ''-vframes'', ''1'', ''-vf'',
                           ''scale=500:-1'', ''cover.jpg'']),
             Exec (map js [''-i'', ''input.mp4'', ''-i'', ''cover.jpg'', ''-map'', ''0:a'',
                           ''-map'', ''1'', ''-c:a'', ''libmp3lame'', ''-ab'', ''192k'',
                           ''-c:v:1'', ''mjpeg'', ''-disposition:v:1'', ''attached_pic'',
                           ''-id3v2_version'', ''3'', ''output.mp3''])] @ rest
          \<and> (\<forall>a. Exec a \<notin> set rest))
       \<and> js ''-metadata'' \<notin> set (mp3_args (lyrics s))
       \<and> (\<forall>st2 e3 data e4.
            exec P (mp3_args (lyrics s)) e2 = (Inr st2, e3) \<and>
            readFile P (js ''output.mp3'') e3 = (Inr data, e4) \<longrightarrow>
            (\<exists>d. outputUrl (snd (handleExtractAudio P s))
                   = Some \<lparr>blob_parts = d, blob_type = js ''audio/mp3''\<rparr>))"
proof (intro conjI allI impI)
  from extract_run_calls [OF assms(1-5)] mp3_args_no_lyrics [OF assms(6)]
  show "\<exists>rest. calls (snd (handleExtractAudio P s)) =
            calls s @
            [WriteFile (js ''input.mp4'') bytes,
             Exec (map js [''-i'', ''input.mp4'', ''-ss'', ''0'', ''-vframes'', ''1'', ''-vf'',
                           ''scale=500:-1'', ''cover.jpg'']),
             Exec (map js [''-i'', ''input.mp4'', ''-i'', ''cover.jpg'', ''-map'', ''0:a'',
                           ''-map'', ''1'', ''-c:a'', ''libmp3lame'', ''-ab'', ''192k'',
                           ''-c:v:1'', ''mjpeg'', ''-disposition:v:1'', ''attached_pic'',
                           ''-id3v2_version'', ''3'', ''output.mp3''])] @ rest
          \<and> (\<forall>a. Exec a \<notin> set rest)"
    by (simp add: cover_args_def)
next
  from mp3_args_no_lyrics [OF assms(6)] no_metadata
  show "js ''-metadata'' \<notin> set (mp3_args (lyrics s))" by simp
next
  fix st2 e3 data e4
  assume "exec P (mp3_args (lyrics s)) e2 = (Inr st2, e3) \<and>
          readFile P (js ''output.mp3'') e3 = (Inr data, e4)"
  then show "\<exists>d. outputUrl (snd (handleExtractAudio P s))
                   = Some \<lparr>blob_parts = d, blob_type = js ''audio/mp3''\<rparr>"
    using extract_run_mime [OF assms(1-5)] by blast
qed

theorem extract_without_lyrics_witness:
  "trim (lyrics (sample_app [0x20, 0x0A] :: memfs app)) = []
   \<and> js ''-metadata'' \<notin> set (mp3_args (lyrics (sample_app [0x20, 0x0A] :: memfs app)))
   \<and> (\<exists>d. outputUrl (snd (handleExtractAudio (memfs_platform core_ok) (sample_app [0x20, 0x0A])))
             = Some \<lparr>blob_parts = d, blob_type = js ''audio/mp3''\<rparr>)"
proof -
  let ?P = "memfs_platform core_ok"
  let ?s = "sample_app [0x20, 0x0A] :: memfs app"
  let ?f = "\<lparr>file_name = js ''a.mp4'', file_bytes = [7, 8, 9]\<rparr>"
  let ?e1 = "[(js ''input.mp4'', FBytes [7, 8, 9])]"
  let ?e2 = "(js ''cover.jpg'', FBytes [1, 2, 3]) # ?e1"
  let ?e3 = "(js ''output.mp3'', FBytes [1, 2, 3]) # ?e2"
  have h1: "videoFile ?s = Some ?f" by (simp add: sample_app_def)
  have h2: "\<not> ffmpegLoading ?s" by (simp add: sample_app_def)
  have h3: "fetchFile ?P ?f = Inr [7, 8, 9]" by (simp add: memfs_platform_def)
  have h4: "writeFile ?P (js ''input.mp4'') [7, 8, 9] (engine ?s) = (None, ?e1)"
    by (simp add: memfs_platform_def sample_app_def)
  have h5: "exec ?P cover_args ?e1 = (Inr 0, ?e2)" by code_simp
  have h6: "trim (lyrics ?s) = []" by code_simp
  have h7: "exec ?P (mp3_args (lyrics ?s)) ?e2 = (Inr 0, ?e3)" by code_simp
  have h8: "readFile ?P (js ''output.mp3'') ?e3 = (Inr (FBytes [1, 2, 3]), ?e3)" by code_simp
  from extract_without_lyrics [OF h1 h2 h3 h4 h5 h6] h6 h7 h8 show ?thesis by blast
qed

text \<open>
  C7, as stated: every run with non-empty lyrics carries two metadata arguments. Lyrics
  of one space are not empty, yet the handler tests the trimmed text: the second
  command has no metadata argument at all.
\<close>

theorem extract_blank_lyrics_counterexample:
  "lyrics (sample_app [0x20] :: memfs app) = [0x20]
   \<and> calls (snd (handleExtractAudio (memfs_platform core_ok) (sample_app [0x20]))) =
     [WriteFile (js ''input.mp4'') [7, 8, 9],
      Exec (map js [''-i'', ''input.mp4'', ''-ss'', ''0'', ''-vframes'', ''1'', ''-vf'',
                    ''scale=500:-1'', ''cover.jpg'']),
      Exec (map js [''-i'', ''input.mp4'', ''-i'', ''cover.jpg'', ''-map'', ''0:a'',
                    ''-map'', ''1'', ''-c:a'', ''libmp3lame'', ''-ab'', ''192k'', ''-c:v:1'',
                    ''mjpeg'', ''-disposition:v:1'', ''attached_pic'', ''-id3v2_version'',
                    ''3'', ''output.mp3'']),
      ReadFile (js ''output.mp3''),
      DeleteFile (js ''input.mp4''), DeleteFile (js ''output.mp3''),
      DeleteFile (js ''cover.jpg'')]"
  by code_simp

text \<open>
  C7, amended: when the lyrics are not empty after trimming, the run has two stages.
  Stage 1 takes one frame at timestamp 0, scaled to width 500, into \<open>cover.jpg\<close>.
  Stage 2 marks the image stream \<open>attached_pic\<close>, asks for ID3 version 3 and 192k, and
  has exactly two \<open>-metadata\<close> arguments, \<open>LYRICS=\<close> and \<open>USLT=\<close>, both followed by the
  escaped trimmed lyrics, in which no newline is left: each one has become a
  backslash and the letter n.
\<close>

theorem extract_with_lyrics:
  assumes "videoFile s = Some f" and "\<not> ffmpegLoading s"
    and "fetchFile P f = Inr bytes"
    and "writeFile P (js ''input.mp4'') bytes (engine s) = (None, e1)"
    and "exec P cover_args e1 = (Inr st1, e2)"
    and "trim (lyrics s) \<noteq> []"
  shows "(\<exists>rest. calls (snd (handleExtractAudio P s)) =
            calls s @
            [WriteFile (js ''input.mp4'') bytes,
             Exec (map js [''-i'', ''input.mp4'', ''-ss'', ''0'', ''-vframes'', ''1'', ''-vf'',
                           ''scale=500:-1'', ''cover.jpg'']),
             Exec (map js [''-i'', ''input.mp4'', ''-i'', ''cover.jpg'', ''-map'', ''0:a'',
                           ''-map'', ''1'', ''-c:a'', ''libmp3lame'', ''-ab'', ''192k'',
                           ''-c:v:1'', ''mjpeg'', ''-disposition:v:1'', ''attached_pic'',
                           ''-id3v2_version'', ''3'']
                   @ [js ''-metadata'', js ''LYRICS='' @ escapedLyrics (trim (lyrics s)),
                      js ''-metadata'', js ''USLT='' @ escapedLyrics (trim (lyrics s)),
                      js ''output.mp3''])] @ rest
          \<and> (\<forall>a. Exec a \<notin> set rest))
       \<and> length (filter (\<lambda>a. a = js ''-metadata'') (mp3_args (lyrics s))) = 2
       \<and> newline \<notin> set (escapedLyrics (trim (lyrics s)))
       \<and> (\<forall>a b. trim (lyrics s) = a @ [newline] @ b \<longrightarrow>
            escapedLyrics (trim (lyrics s)) =
              escapedLyrics a @ [backslash, letter_n] @ escapedLyrics b)"
proof (intro conjI allI impI)
  from extract_run_calls [OF assms(1-5)] mp3_args_lyrics [OF assms(6)]
  show "\<exists>rest. calls (snd (handleExtractAudio P s)) =
            calls s @
            [WriteFile (js ''input.mp4'') bytes,
             Exec (map js [''-i'', ''input.mp4'', ''-ss'', ''0'', ''-vframes'', ''1'', ''-vf'',
                           ''scale=500:-1'', ''cover.jpg'']),
             Exec (map js [''-i'', ''input.mp4'', ''-i'', ''cover.jpg'', ''-map'', ''0:a'',
                           ''-map'', ''1'', ''-c:a'', ''libmp3lame'', ''-ab'', ''192k'',
                           ''-c:v:1'', ''mjpeg'', ''-disposition:v:1'', ''attached_pic'',
                           ''-id3v2_version'', ''3'']
                   @ [js ''-metadata'', js ''LYRICS='' @ escapedLyrics (trim (lyrics s)),
                      js ''-metadata'', js ''USLT='' @ escapedLyrics (trim (lyrics s)),
                      js ''output.mp3''])] @ rest
          \<and> (\<forall>a. Exec a \<notin> set rest)"
    by (simp add: cover_args_def)
next
  show "length (filter (\<lambda>a. a = js ''-metadata'') (mp3_args (lyrics s))) = 2"
    unfolding mp3_args_lyrics [OF assms(6)] by (rule count_metadata)
next
  show "newline \<notin> set (escapedLyrics (trim (lyrics s)))"
    by (rule newline_not_in_escapedLyrics)
next
  fix a b
  assume "trim (lyrics s) = a @ [newline] @ b"
  then show "escapedLyrics (trim (lyrics s)) =
              escapedLyrics a @ [backslash, letter_n] @ escapedLyrics b"
    by (simp only: escapedLyrics_newline)
qed

theorem extract_with_lyrics_witness:
  "trim (lyrics (sample_app scenario_B_lyrics :: memfs app)) \<noteq> []
   \<and> length (filter (\<lambda>a. a = js ''-metadata'')
        (mp3_args (lyrics (sample_app scenario_B_lyrics :: memfs app)))) = 2
   \<and> (\<exists>rest. calls (snd (handleExtractAudio (memfs_platform core_ok)
                 (sample_app scenario_B_lyrics))) =
        [WriteFile (js ''input.mp4'') [7, 8, 9],
         Exec (map js [''-i'', ''input.mp4'', ''-ss'', ''0'', ''-vframes'', ''1'', ''-vf'',
                       ''scale=500:-1'', ''cover.jpg'']),
         Exec (map js [''-i'', ''input.mp4'', ''-i'', ''cover.jpg'', ''-map'', ''0:a'',
                       ''-map'', ''1'', ''-c:a'', ''libmp3lame'', ''-ab'', ''192k'',
                       ''-c:v:1'', ''mjpeg'', ''-disposition:v:1'', ''attached_pic'',
                       ''-id3v2_version'', ''3'']
               @ [js ''-metadata'',
                  js ''LYRICS=[00:00.00]hello'' @ [backslash, letter_n] @ js ''[00:05.00]world'',
                  js ''-metadata'',
                  js ''USLT=[00:00.00]hello'' @ [backslash, letter_n] @ js ''[00:05.00]world'',
                  js ''output.mp3''])] @ rest)"
proof -
  let ?P = "memfs_platform core_ok"
  let ?s = "sample_app scenario_B_lyrics :: memfs app"
  let ?f = "\<lparr>file_name = js ''a.mp4'', file_bytes = [7, 8, 9]\<rparr>"
  let ?e1 = "[(js ''input.mp4'', FBytes [7, 8, 9])]"
  let ?e2 = "(js ''cover.jpg'', FBytes [1, 2, 3]) # ?e1"
  have h1: "videoFile ?s = Some ?f" by (simp add: sample_app_def)
  have h2: "\<not> ffmpegLoading ?s" by (simp add: sample_app_def)
  have h3: "fetchFile ?P ?f = Inr [7, 8, 9]" by (simp add: memfs_platform_def)
  have h4: "writeFile ?P (js ''input.mp4'') [7, 8, 9] (engine ?s) = (None, ?e1)"
    by (simp add: memfs_platform_def sample_app_def)
  have h5: "exec ?P cover_args ?e1 = (Inr 0, ?e2)" by code_simp
  have h6: "trim (lyrics ?s) \<noteq> []" by code_simp
  have c0: "calls ?s = []" by (simp add: sample_app_def)
  have esc: "escapedLyrics (trim (lyrics ?s)) =
               js ''[00:00.00]hello'' @ [backslash, letter_n] @ js ''[00:05.00]world''"
    by code_simp
  from extract_with_lyrics [OF h1 h2 h3 h4 h5 h6] h6 c0 esc show ?thesis
    by (clarsimp simp: js_def)
qed

section \<open>Cleanup of the staged files\<close>

text \<open>
  C1, as stated: whatever the outcome, every file staged by a run is gone when the run
  returns. When the first command throws, the extraction run returns with \<open>input.mp4\<close>
  still in the store; so does a preview run whose command exits with 1 and leaves no
  \<open>output.gif\<close> to read.
\<close>

theorem failed_run_leaves_input_counterexample:
  "engine (snd (handleExtractAudio (memfs_platform core_throw) (sample_app [])))
     = [(js ''input.mp4'', FBytes [7, 8, 9])]
   \<and> calls (snd (handleExtractAudio (memfs_platform core_throw) (sample_app [])))
     = [WriteFile (js ''input.mp4'') [7, 8, 9], Exec cover_args]
   \<and> engine (snd (handleConvertToGif (memfs_platform core_exit1) (sample_app [])))
     = [(js ''input.mp4'', FBytes [7, 8, 9])]
   \<and> calls (snd (handleConvertToGif (memfs_platform core_exit1) (sample_app [])))
     = [WriteFile (js ''input.mp4'') [7, 8, 9], Exec gif_args, ReadFile (js ''output.gif'')]"
  by code_simp

text \<open>
  C1, amended: in a run of either pipeline in which every engine call succeeds, the
  handler deletes each file the run staged (\<open>input.mp4\<close>, \<open>output.mp3\<close> and \<open>cover.jpg\<close>;
  \<open>input.mp4\<close> and \<open>output.gif\<close>) before it returns, so that, for an engine whose
  \<open>deleteFile\<close> removes the name it is given, none of them is left. Deleting is the last
  part of the \<open>try\<close> block: a run deletes nothing unless its output was read and
  materialised first. \<open>files\<close> is the listing of the engine's store.
\<close>

theorem cleanup_on_success:
  assumes law: "\<And>name e e'. deleteFile P name e = (None, e') \<Longrightarrow> files e' = files e - {name}"
    and "videoFile s = Some f" and "\<not> ffmpegLoading s"
  shows "(\<forall>bytes e1 st1 e2 st2 e3 data e4 e5 e6 e7.
            fetchFile P f = Inr bytes \<and>
            writeFile P (js ''input.mp4'') bytes (engine s) = (None, e1) \<and>
            exec P cover_args e1 = (Inr st1, e2) \<and>
            exec P (mp3_args (lyrics s)) e2 = (Inr st2, e3) \<and>
            readFile P (js ''output.mp3'') e3 = (Inr data, e4) \<and>
            deleteFile P (js ''input.mp4'') e4 = (None, e5) \<and>
            deleteFile P (js ''output.mp3'') e5 = (None, e6) \<and>
            deleteFile P (js ''cover.jpg'') e6 = (None, e7) \<longrightarrow>
            engine (snd (handleExtractAudio P s)) = e7 \<and>
            files e7 \<inter> {js ''input.mp4'', js ''output.mp3'', js ''cover.jpg''} = {} \<and>
            calls (snd (handleExtractAudio P s)) =
              calls s @ [WriteFile (js ''input.mp4'') bytes, Exec cover_args,
                         Exec (mp3_args (lyrics s)), ReadFile (js ''output.mp3''),
                         DeleteFile (js ''input.mp4''), DeleteFile (js ''output.mp3''),
                         DeleteFile (js ''cover.jpg'')])
       \<and> (\<forall>bytes e1 st e2 data e3 e4 e5.
            fetchFile P f = Inr bytes \<and>
            writeFile P (js ''input.mp4'') bytes (engine s) = (None, e1) \<and>
            exec P gif_args e1 = (Inr st, e2) \<and>
            readFile P (js ''output.gif'') e2 = (Inr data, e3) \<and>
            deleteFile P (js ''input.mp4'') e3 = (None, e4) \<and>
            deleteFile P (js ''output.gif'') e4 = (None, e5) \<longrightarrow>
            engine (snd (handleConvertToGif P s)) = e5 \<and>
            files e5 \<inter> {js ''input.mp4'', js ''output.gif''} = {} \<and>
            calls (snd (handleConvertToGif P s)) =
              calls s @ [WriteFile (js ''input.mp4'') bytes, Exec gif_args,
                         ReadFile (js ''output.gif''),
                         DeleteFile (js ''input.mp4''), DeleteFile (js ''output.gif'')])
       \<and> ((\<forall>name. DeleteFile name \<notin>
                set (drop (length (calls s)) (calls (snd (handleExtractAudio P s)))))
            \<or> (\<exists>d. ReadFile (js ''output.mp3'') \<in> set (calls (snd (handleExtractAudio P s)))
                  \<and> outputUrl (snd (handleExtractAudio P s))
                      = Some \<lparr>blob_parts = d, blob_type = js ''audio/mp3''\<rparr>))
       \<and> ((\<forall>name. DeleteFile name \<notin>
                set (drop (length (calls s)) (calls (snd (handleConvertToGif P s)))))
            \<or> (\<exists>d. ReadFile (js ''output.gif'') \<in> set (calls (snd (handleConvertToGif P s)))
                  \<and> outputUrl (snd (handleConvertToGif P s))
                      = Some \<lparr>blob_parts = d, blob_type = js ''image/gif''\<rparr>))"
proof (intro conjI allI impI)
  fix bytes e1 st1 e2 st2 e3 data e4 e5 e6 e7
  assume run: "fetchFile P f = Inr bytes \<and>
            writeFile P (js ''input.mp4'') bytes (engine s) = (None, e1) \<and>
            exec P cover_args e1 = (Inr st1, e2) \<and>
            exec P (mp3_args (lyrics s)) e2 = (Inr st2, e3) \<and>
            readFile P (js ''output.mp3'') e3 = (Inr data, e4) \<and>
            deleteFile P (js ''input.mp4'') e4 = (None, e5) \<and>
            deleteFile P (js ''output.mp3'') e5 = (None, e6) \<and>
            deleteFile P (js ''cover.jpg'') e6 = (None, e7)"
  with assms(2,3) show "engine (snd (handleExtractAudio P s)) = e7"
    by (simp add: handleExtractAudio_def extract_try_def ffmpeg_eqs setters Let_def)
  from run assms(2,3) show "calls (snd (handleExtractAudio P s)) =
              calls s @ [WriteFile (js ''input.mp4'') bytes, Exec cover_args,
                         Exec (mp3_args (lyrics s)), ReadFile (js ''output.mp3''),
                         DeleteFile (js ''input.mp4''), DeleteFile (js ''output.mp3''),
                         DeleteFile (js ''cover.jpg'')]"
    by (simp add: handleExtractAudio_def extract_try_def ffmpeg_eqs setters Let_def)
  from run have "files e5 = files e4 - {js ''input.mp4''}"
    and "files e6 = files e5 - {js ''output.mp3''}"
    and "files e7 = files e6 - {js ''cover.jpg''}"
    by (simp_all add: law)
  then show "files e7 \<inter> {js ''input.mp4'', js ''output.mp3'', js ''cover.jpg''} = {}"
    by blast
next
  fix bytes e1 st e2 data e3 e4 e5
  assume run: "fetchFile P f = Inr bytes \<and>
            writeFile P (js ''input.mp4'') bytes (engine s) = (None, e1) \<and>
            exec P gif_args e1 = (Inr st, e2) \<and>
            readFile P (js ''output.gif'') e2 = (Inr data, e3) \<and>
            deleteFile P (js ''input.mp4'') e3 = (None, e4) \<and>
            deleteFile P (js ''output.gif'') e4 = (None, e5)"
  with assms(2,3) show "engine (snd (handleConvertToGif P s)) = e5"
    by (simp add: handleConvertToGif_def convert_try_def ffmpeg_eqs setters Let_def)
  from run assms(2,3) show "calls (snd (handleConvertToGif P s)) =
              calls s @ [WriteFile (js ''input.mp4'') bytes, Exec gif_args,
                         ReadFile (js ''output.gif''),
                         DeleteFile (js ''input.mp4''), DeleteFile (js ''output.gif'')]"
    by (simp add: handleConvertToGif_def convert_try_def ffmpeg_eqs setters Let_def)
  from run have "files e4 = files e3 - {js ''input.mp4''}"
    and "files e5 = files e4 - {js ''output.gif''}"
    by (simp_all add: law)
  then show "files e5 \<inter> {js ''input.mp4'', js ''output.gif''} = {}"
    by blast
next
  from assms(2,3)
  show "(\<forall>name. DeleteFile name \<notin>
                set (drop (length (calls s)) (calls (snd (handleExtractAudio P s)))))
            \<or> (\<exists>d. ReadFile (js ''output.mp3'') \<in> set (calls (snd (handleExtractAudio P s)))
                  \<and> outputUrl (snd (handleExtractAudio P s))
                      = Some \<lparr>blob_parts = d, blob_type = js ''audio/mp3''\<rparr>)"
    by (auto simp: handleExtractAudio_def extract_try_def ffmpeg_eqs setters new_Blob_def
                   Let_def
             split: sum.splits option.splits prod.splits)
next
  from assms(2,3)
  show "(\<forall>name. DeleteFile name \<notin>
                set (drop (length (calls s)) (calls (snd (handleConvertToGif P s)))))
            \<or> (\<exists>d. ReadFile (js ''output.gif'') \<in> set (calls (snd (handleConvertToGif P s)))
                  \<and> outputUrl (snd (handleConvertToGif P s))
                      = Some \<lparr>blob_parts = d, blob_type = js ''image/gif''\<rparr>)"
    by (auto simp: handleConvertToGif_def convert_try_def ffmpeg_eqs setters new_Blob_def
                   Let_def
             split: sum.splits option.splits prod.splits)
qed

theorem cleanup_on_success_witness:
  "engine (snd (handleExtractAudio (memfs_platform core_ok) (sample_app []))) = []
   \<and> fst ` set (engine (snd (handleExtractAudio (memfs_platform core_ok) (sample_app []))))
       \<inter> {js ''input.mp4'', js ''output.mp3'', js ''cover.jpg''} = {}
   \<and> calls (snd (handleExtractAudio (memfs_platform core_ok) (sample_app []))) =
       [WriteFile (js ''input.mp4'') [7, 8, 9], Exec cover_args, Exec (mp3_args []),
        ReadFile (js ''output.mp3''), DeleteFile (js ''input.mp4''),
        DeleteFile (js ''output.mp3''), DeleteFile (js ''cover.jpg'')]"
proof -
  let ?P = "memfs_platform core_ok"
  let ?s = "sample_app [] :: memfs app"
  let ?f = "\<lparr>file_name = js ''a.mp4'', file_bytes = [7, 8, 9]\<rparr>"
  let ?in = "(js ''input.mp4'', FBytes [7, 8, 9])"
  let ?cover = "(js ''cover.jpg'', FBytes [1, 2, 3])"
  let ?out = "(js ''output.mp3'', FBytes [1, 2, 3])"
  have law: "\<And>name e e'. deleteFile ?P name e = (None, e') \<Longrightarrow>
               fst ` set e' = fst ` set e - {name}"
    by (auto simp: memfs_platform_def split: if_splits)
  have h1: "videoFile ?s = Some ?f" by (simp add: sample_app_def)
  have h2: "\<not> ffmpegLoading ?s" by (simp add: sample_app_def)
  have run: "fetchFile ?P ?f = Inr [7, 8, 9] \<and>
            writeFile ?P (js ''input.mp4'') [7, 8, 9] (engine ?s) = (None, [?in]) \<and>
            exec ?P cover_args [?in] = (Inr 0, [?cover, ?in]) \<and>
            exec ?P (mp3_args (lyrics ?s)) [?cover, ?in] = (Inr 0, [?out, ?cover, ?in]) \<and>
            readFile ?P (js ''output.mp3'') [?out, ?cover, ?in]
              = (Inr (FBytes [1, 2, 3]), [?out, ?cover, ?in]) \<and>
            deleteFile ?P (js ''input.mp4'') [?out, ?cover, ?in] = (None, [?out, ?cover]) \<and>
            deleteFile ?P (js ''output.mp3'') [?out, ?cover] = (None, [?cover]) \<and>
            deleteFile ?P (js ''cover.jpg'') [?cover] = (None, [])"
    by code_simp
  have l0: "lyrics ?s = []" and c0: "calls ?s = []" by (simp_all add: sample_app_def)
  from cleanup_on_success [of ?P "\<lambda>fs. fst ` set fs", OF law h1 h2] run l0 c0
  show ?thesis by (simp del: insert_iff)
qed

section \<open>What becomes of a thrown error\<close>

text \<open>
  C2, as stated: when an engine operation fails, the caller of the run gets the failure
  as an error result, after cleanup was attempted. Here the command throws: the run
  settles as fulfilled, the error is in the console and in the status message, and no
  file was deleted.
\<close>

theorem engine_failure_counterexample:
  "handleConvertToGif (memfs_platform core_throw) (sample_app []) =
     (Fulfilled,
      \<lparr>loading = False,
       message = msg_gif_failed @ js ''called FFmpeg.terminate()'',
       videoFile = Some \<lparr>file_name = js ''a.mp4'', file_bytes = [7, 8, 9]\<rparr>,
       lyrics = [], outputUrl = None, ffmpegLoading = False,
       console = [(label_gif_failed, ErrorObj (js ''called FFmpeg.terminate()''))],
       engine = [(js ''input.mp4'', FBytes [7, 8, 9])],
       calls = [WriteFile (js ''input.mp4'') [7, 8, 9], Exec gif_args]\<rparr>)"
  by code_simp

text \<open>
  C2, amended: both handlers always settle as fulfilled. When \<open>fetchFile\<close> or an engine
  operation of the \<open>try\<close> block throws (staging, a command, the read, a delete), the
  \<open>catch\<close> block logs the error to the console and sets the status message to the failure
  prefix followed by the error's message, and the \<open>finally\<close> block resets \<open>loading\<close>.
  The engine calls of the run are those up to and including the one that failed: no
  call follows it, so nothing is cleaned up (and after a failing delete the remaining
  deletes are not made). An output read before the failure stays in \<open>outputUrl\<close>. A
  failing \<open>toBlobURL\<close> or \<open>ffmpeg.load\<close> is caught by \<open>loadFFmpeg\<close>, which logs it,
  clears its loading flag and settles as fulfilled.
\<close>

theorem engine_failure_is_caught:
  "fst (handleExtractAudio P s) = Fulfilled
   \<and> fst (handleConvertToGif P s) = Fulfilled
   \<and> (\<forall>f. videoFile s = Some f \<and> \<not> ffmpegLoading s \<longrightarrow>
        (\<forall>e.
            fetchFile P f = Inl e \<longrightarrow>
            handleExtractAudio P s =
              (Fulfilled, s\<lparr>loading := False,
                 message := msg_extract_failed @ error_text e,
                 console := console s @ [(label_extract_failed, e)]\<rparr>)
            \<and> handleConvertToGif P s =
              (Fulfilled, s\<lparr>loading := False,
                 message := msg_gif_failed @ error_text e,
                 console := console s @ [(label_gif_failed, e)]\<rparr>))
        \<and> (\<forall>bytes e e1.
            fetchFile P f = Inr bytes \<and>
            writeFile P (js ''input.mp4'') bytes (engine s) = (Some e, e1) \<longrightarrow>
            handleExtractAudio P s =
              (Fulfilled, s\<lparr>loading := False,
                 message := msg_extract_failed @ error_text e,
                 console := console s @ [(label_extract_failed, e)],
                 engine := e1,
                 calls := calls s @ [WriteFile (js ''input.mp4'') bytes]\<rparr>))
        \<and> (\<forall>bytes e1 e e2.
            fetchFile P f = Inr bytes \<and>
            writeFile P (js ''input.mp4'') bytes (engine s) = (None, e1) \<and>
            exec P cover_args e1 = (Inl e, e2) \<longrightarrow>
            handleExtractAudio P s =
              (Fulfilled, s\<lparr>loading := False,
                 message := msg_extract_failed @ error_text e,
                 console := console s @ [(label_extract_failed, e)],
                 engine := e2,
                 calls := calls s @ [WriteFile (js ''input.mp4'') bytes, Exec cover_args]\<rparr>))
        \<and> (\<forall>bytes e1 st1 e2 e e3.
            fetchFile P f = Inr bytes \<and>
            writeFile P (js ''input.mp4'') bytes (engine s) = (None, e1) \<and>
            exec P cover_args e1 = (Inr st1, e2) \<and>
            exec P (mp3_args (lyrics s)) e2 = (Inl e, e3) \<longrightarrow>
            handleExtractAudio P s =
              (Fulfilled, s\<lparr>loading := False,
                 message := msg_extract_failed @ error_text e,
                 console := console s @ [(label_extract_failed, e)],
                 engine := e3,
                 calls := calls s @ [WriteFile (js ''input.mp4'') bytes, Exec cover_args, Exec (mp3_args (lyrics s))]\<rparr>))
        \<and> (\<forall>bytes e1 st1 e2 st2 e3 e e4.
            fetchFile P f = Inr bytes \<and>
            writeFile P (js ''input.mp4'') bytes (engine s) = (None, e1) \<and>
            exec P cover_args e1 = (Inr st1, e2) \<and>
            exec P (mp3_args (lyrics s)) e2 = (Inr st2, e3) \<and>
            readFile P (js ''output.mp3'') e3 = (Inl e, e4) \<longrightarrow>
            handleExtractAudio P s =
              (Fulfilled, s\<lparr>loading := False,
                 message := msg_extract_failed @ error_text e,
                 console := console s @ [(label_extract_failed, e)],
                 engine := e4,
                 calls := calls s @ [WriteFile (js ''input.mp4'') bytes, Exec cover_args, Exec (mp3_args (lyrics s)), ReadFile (js ''output.mp3'')]\<rparr>))
        \<and> (\<forall>bytes e1 st1 e2 st2 e3 data e4 e e5.
            fetchFile P f = Inr bytes \<and>
            writeFile P (js ''input.mp4'') bytes (engine s) = (None, e1) \<and>
            exec P cover_args e1 = (Inr st1, e2) \<and>
            exec P (mp3_args (lyrics s)) e2 = (Inr st2, e3) \<and>
            readFile P (js ''output.mp3'') e3 = (Inr data, e4) \<and>
            deleteFile P (js ''input.mp4'') e4 = (Some e, e5) \<longrightarrow>
            handleExtractAudio P s =
              (Fulfilled, s\<lparr>loading := False,
                 message := msg_extract_failed @ error_text e,
                 outputUrl := Some (new_Blob (toUint8Array P data) (js ''audio/mp3'')),
                 console := console s @ [(label_extract_failed, e)],
                 engine := e5,
                 calls := calls s @ [WriteFile (js ''input.mp4'') bytes, Exec cover_args, Exec (mp3_args (lyrics s)), ReadFile (js ''output.mp3''), DeleteFile (js ''input.mp4'')]\<rparr>))
        \<and> (\<forall>bytes e1 st1 e2 st2 e3 data e4 e5 e e6.
            fetchFile P f = Inr bytes \<and>
            writeFile P (js ''input.mp4'') bytes (engine s) = (None, e1) \<and>
            exec P cover_args e1 = (Inr st1, e2) \<and>
            exec P (mp3_args (lyrics s)) e2 = (Inr st2, e3) \<and>
            readFile P (js ''output.mp3'') e3 = (Inr data, e4) \<and>
            deleteFile P (js ''input.mp4'') e4 = (None, e5) \<and>
            deleteFile P (js ''output.mp3'') e5 = (Some e, e6) \<longrightarrow>
            handleExtractAudio P s =
              (Fulfilled, s\<lparr>loading := False,
                 message := msg_extract_failed @ error_text e,
                 outputUrl := Some (new_Blob (toUint8Array P data) (js ''audio/mp3'')),
                 console := console s @ [(label_extract_failed, e)],
                 engine := e6,
                 calls := calls s @ [WriteFile (js ''input.mp4'') bytes, Exec cover_args, Exec (mp3_args (lyrics s)), ReadFile (js ''output.mp3''), DeleteFile (js ''input.mp4''), DeleteFile (js ''output.mp3'')]\<rparr>))
        \<and> (\<forall>bytes e1 st1 e2 st2 e3 data e4 e5 e6 e e7.
            fetchFile P f = Inr bytes \<and>
            writeFile P (js ''input.mp4'') bytes (engine s) = (None, e1) \<and>
            exec P cover_args e1 = (Inr st1, e2) \<and>
            exec P (mp3_args (lyrics s)) e2 = (Inr st2, e3) \<and>
            readFile P (js ''output.mp3'') e3 = (Inr data, e4) \<and>
            deleteFile P (js ''input.mp4'') e4 = (None, e5) \<and>
            deleteFile P (js ''output.mp3'') e5 = (None, e6) \<and>
            deleteFile P (js ''cover.jpg'') e6 = (Some e, e7) \<longrightarrow>
            handleExtractAudio P s =
              (Fulfilled, s\<lparr>loading := False,
                 message := msg_extract_failed @ error_text e,
                 outputUrl := Some (new_Blob (toUint8Array P data) (js ''audio/mp3'')),
                 console := console s @ [(label_extract_failed, e)],
                 engine := e7,
                 calls := calls s @ [WriteFile (js ''input.mp4'') bytes, Exec cover_args, Exec (mp3_args (lyrics s)), ReadFile (js ''output.mp3''), DeleteFile (js ''input.mp4''), DeleteFile (js ''output.mp3''), DeleteFile (js ''cover.jpg'')]\<rparr>))
        \<and> (\<forall>bytes e e1.
            fetchFile P f = Inr bytes \<and>
            writeFile P (js ''input.mp4'') bytes (engine s) = (Some e, e1) \<longrightarrow>
            handleConvertToGif P s =
              (Fulfilled, s\<lparr>loading := False,
                 message := msg_gif_failed @ error_text e,
                 console := console s @ [(label_gif_failed, e)],
                 engine := e1,
                 calls := calls s @ [WriteFile (js ''input.mp4'') bytes]\<rparr>))
        \<and> (\<forall>bytes e1 e e2.
            fetchFile P f = Inr bytes \<and>
            writeFile P (js ''input.mp4'') bytes (engine s) = (None, e1) \<and>
            exec P gif_args e1 = (Inl e, e2) \<longrightarrow>
            handleConvertToGif P s =
              (Fulfilled, s\<lparr>loading := False,
                 message := msg_gif_failed @ error_text e,
                 console := console s @ [(label_gif_failed, e)],
                 engine := e2,
                 calls := calls s @ [WriteFile (js ''input.mp4'') bytes, Exec gif_args]\<rparr>))
        \<and> (\<forall>bytes e1 st1 e2 e e3.
            fetchFile P f = Inr bytes \<and>
            writeFile P (js ''input.mp4'') bytes (engine s) = (None, e1) \<and>
            exec P gif_args e1 = (Inr st1, e2) \<and>
            readFile P (js ''output.gif'') e2 = (Inl e, e3) \<longrightarrow>
            handleConvertToGif P s =
              (Fulfilled, s\<lparr>loading := False,
                 message := msg_gif_failed @ error_text e,
                 console := console s @ [(label_gif_failed, e)],
                 engine := e3,
                 calls := calls s @ [WriteFile (js ''input.mp4'') bytes, Exec gif_args, ReadFile (js ''output.gif'')]\<rparr>))
        \<and> (\<forall>bytes e1 st1 e2 data e3 e e4.
            fetchFile P f = Inr bytes \<and>
            writeFile P (js ''input.mp4'') bytes (engine s) = (None, e1) \<and>
            exec P gif_args e1 = (Inr st1, e2) \<and>
            readFile P (js ''output.gif'') e2 = (Inr data, e3) \<and>
            deleteFile P (js ''input.mp4'') e3 = (Some e, e4) \<longrightarrow>
            handleConvertToGif P s =
              (Fulfilled, s\<lparr>loading := False,
                 message := msg_gif_failed @ error_text e,
                 outputUrl := Some (new_Blob (toUint8Array P data) (js ''image/gif'')),
                 console := console s @ [(label_gif_failed, e)],
                 engine := e4,
                 calls := calls s @ [WriteFile (js ''input.mp4'') bytes, Exec gif_args, ReadFile (js ''output.gif''), DeleteFile (js ''input.mp4'')]\<rparr>))
        \<and> (\<forall>bytes e1 st1 e2 data e3 e4 e e5.
            fetchFile P f = Inr bytes \<and>
            writeFile P (js ''input.mp4'') bytes (engine s) = (None, e1) \<and>
            exec P gif_args e1 = (Inr st1, e2) \<and>
            readFile P (js ''output.gif'') e2 = (Inr data, e3) \<and>
            deleteFile P (js ''input.mp4'') e3 = (None, e4) \<and>
            deleteFile P (js ''output.gif'') e4 = (Some e, e5) \<longrightarrow>
            handleConvertToGif P s =
              (Fulfilled, s\<lparr>loading := False,
                 message := msg_gif_failed @ error_text e,
                 outputUrl := Some (new_Blob (toUint8Array P data) (js ''image/gif'')),
                 console := console s @ [(label_gif_failed, e)],
                 engine := e5,
                 calls := calls s @ [WriteFile (js ''input.mp4'') bytes, Exec gif_args, ReadFile (js ''output.gif''), DeleteFile (js ''input.mp4''), DeleteFile (js ''output.gif'')]\<rparr>)))
   \<and> (\<forall>e h. loadFFmpeg_step (Some e) AwaitCoreURL h =
        (Settled Fulfilled, h\<lparr>hook_console := hook_console h @ [e], hook_loading := False\<rparr>))
   \<and> (\<forall>e h. loadFFmpeg_step (Some e) AwaitWasmURL h =
        (Settled Fulfilled, h\<lparr>hook_console := hook_console h @ [e], hook_loading := False\<rparr>))
   \<and> (\<forall>e h. loadFFmpeg_step (Some e) AwaitLoad h =
        (Settled Fulfilled, h\<lparr>hook_console := hook_console h @ [e], hook_loading := False\<rparr>))"
proof (intro conjI allI impI)
  show "fst (handleExtractAudio P s) = Fulfilled"
    by (simp add: handleExtractAudio_def split: option.splits prod.splits)
  show "fst (handleConvertToGif P s) = Fulfilled"
    by (simp add: handleConvertToGif_def split: option.splits prod.splits)
qed (simp_all add: handleExtractAudio_def extract_try_def handleConvertToGif_def convert_try_def
       ffmpeg_eqs setters Let_def loadFFmpeg_step_def load_catch_def)

theorem engine_failure_is_caught_witness:
  "handleExtractAudio (memfs_platform core_exit1) (sample_app []) =
     (Fulfilled,
      \<lparr>loading = False,
       message = msg_extract_failed @ js ''ErrnoError: FS error'',
       videoFile = Some \<lparr>file_name = js ''a.mp4'', file_bytes = [7, 8, 9]\<rparr>,
       lyrics = [], outputUrl = None, ffmpegLoading = False,
       console = [(label_extract_failed, no_such_file)],
       engine = [(js ''input.mp4'', FBytes [7, 8, 9])],
       calls = [WriteFile (js ''input.mp4'') [7, 8, 9], Exec cover_args, Exec (mp3_args []),
                ReadFile (js ''output.mp3'')]\<rparr>)"
proof -
  let ?P = "memfs_platform core_exit1"
  let ?s = "sample_app [] :: memfs app"
  let ?f = "\<lparr>file_name = js ''a.mp4'', file_bytes = [7, 8, 9]\<rparr>"
  let ?e = "[(js ''input.mp4'', FBytes [7, 8, 9])]"
  have g: "videoFile ?s = Some ?f \<and> \<not> ffmpegLoading ?s" by (simp add: sample_app_def)
  have run: "fetchFile ?P ?f = Inr [7, 8, 9] \<and>
        writeFile ?P (js ''input.mp4'') [7, 8, 9] (engine ?s) = (None, ?e) \<and>
        exec ?P cover_args ?e = (Inr 1, ?e) \<and>
        exec ?P (mp3_args (lyrics ?s)) ?e = (Inr 1, ?e) \<and>
        readFile ?P (js ''output.mp3'') ?e = (Inl no_such_file, ?e)"
    by code_simp
  have t: "error_text no_such_file = js ''ErrnoError: FS error''"
    by (simp add: error_text_def no_such_file_def)
  note guarded = engine_failure_is_caught [of ?P ?s, THEN conjunct2, THEN conjunct2,
                    THEN conjunct1, rule_format, OF g]
  note read_fails = guarded [THEN conjunct2, THEN conjunct2, THEN conjunct2, THEN conjunct2,
                    THEN conjunct1, rule_format, OF run]
  from read_fails t show ?thesis by (simp add: sample_app_def)
qed

section \<open>Concurrent invocations of loadFFmpeg\<close>

lemma filter_update_count:
  "i < length xs \<Longrightarrow>
     length (filter Q (xs[i := y])) + (if Q (xs ! i) then 1 else 0)
       = length (filter Q xs) + (if Q y then 1 else 0)"
proof (induction xs arbitrary: i)
  case Nil
  then show ?case by simp
next
  case (Cons x xs)
  show ?case
  proof (cases i)
    case 0
    then show ?thesis by simp
  next
    case (Suc j)
    with Cons.prems have "j < length xs" by simp
    from Cons.IH [OF this] Suc show ?thesis by simp
  qed
qed

lemma length_run_event: "length (snd (run_event ev st)) = length (snd st)"
  by (cases ev; cases st) (simp add: run_event_def split: prod.splits)

lemma length_run_schedule: "length (snd (run_schedule evs st)) = length (snd st)"
  unfolding run_schedule_def
  by (induction evs arbitrary: st) (simp_all add: length_run_event)

text \<open>
  The invariant of every schedule: each invocation awaiting its load has made a load
  call of its own, and only invocations that await their load or have settled have
  made one.
\<close>

lemma run_event_load_calls:
  assumes "c + awaiting_load (snd st) \<le> load_calls (fst st)"
    and "load_calls (fst st) \<le> c + awaiting_load (snd st) + settled (snd st)"
  shows "c + awaiting_load (snd (run_event ev st)) \<le> load_calls (fst (run_event ev st))
       \<and> load_calls (fst (run_event ev st))
           \<le> c + awaiting_load (snd (run_event ev st)) + settled (snd (run_event ev st))"
proof (cases ev; cases st)
  fix i r h ts
  assume ev: "ev = (i, r)" and st: "st = (h, ts)"
  show ?thesis
  proof (cases "i < length ts")
    case False
    with assms ev st show ?thesis by (simp add: run_event_def)
  next
    case True
    note a = filter_update_count [OF True, of "\<lambda>p. p = AwaitLoad"
                                   "fst (loadFFmpeg_step r (ts ! i) h)"]
    note b = filter_update_count [OF True, of is_settled
                                   "fst (loadFFmpeg_step r (ts ! i) h)"]
    from assms ev st True a b show ?thesis
      by (cases "ts ! i"; cases r)
         (simp_all add: run_event_def loadFFmpeg_step_def load_catch_def awaiting_load_def
                        settled_def is_settled_def)
  qed
qed

lemma run_schedule_load_calls:
  assumes "c + awaiting_load (snd st) \<le> load_calls (fst st)"
    and "load_calls (fst st) \<le> c + awaiting_load (snd st) + settled (snd st)"
  shows "c + awaiting_load (snd (run_schedule evs st)) \<le> load_calls (fst (run_schedule evs st))
       \<and> load_calls (fst (run_schedule evs st))
           \<le> c + awaiting_load (snd (run_schedule evs st)) + settled (snd (run_schedule evs st))"
  using assms
proof (induction evs arbitrary: st)
  case Nil
  then show ?case by (simp add: run_schedule_def)
next
  case (Cons ev evs)
  from run_event_load_calls [OF Cons.prems, of ev]
  have "c + awaiting_load (snd (run_event ev st)) \<le> load_calls (fst (run_event ev st))"
    and "load_calls (fst (run_event ev st))
           \<le> c + awaiting_load (snd (run_event ev st)) + settled (snd (run_event ev st))"
    by simp_all
  from Cons.IH [OF this] show ?case by (simp add: run_schedule_def)
qed

lemma awaiting_settled_le: "awaiting_load ts + settled ts \<le> length ts"
  by (induction ts) (auto simp: awaiting_load_def settled_def is_settled_def)

text \<open>
  C5, as stated: N concurrent invocations trigger one engine load and share its outcome.
  With two invocations, both started before either load has settled, \<open>ffmpeg.load\<close> has
  been called twice; and when the first load succeeds and the second fails, each
  invocation settles on its own load.
\<close>

theorem two_invocations_counterexample:
  "run_schedule [(0, None), (1, None), (0, None), (1, None), (0, None), (1, None)]
       (hook_init, [NotStarted, NotStarted])
     = (\<lparr>hook_loading = True,
         listeners = [js ''log'', js ''progress'', js ''log'', js ''progress''],
         load_calls = 2, hook_console = []\<rparr>,
        [AwaitLoad, AwaitLoad])
   \<and> run_schedule [(0, None), (1, None), (0, None), (1, None), (0, None), (1, None),
                    (0, None), (1, Some NonError)]
       (hook_init, [NotStarted, NotStarted])
     = (\<lparr>hook_loading = False,
         listeners = [js ''log'', js ''progress'', js ''log'', js ''progress''],
         load_calls = 2, hook_console = [NonError]\<rparr>,
        [Settled Fulfilled, Settled Fulfilled])"
  by code_simp

text \<open>
  C5, amended: \<open>loadFFmpeg\<close> has no guard and shares nothing between invocations. In
  every interleaving of N invocations, each invocation that awaits its load has made
  its own call of \<open>ffmpeg.load\<close>, and no invocation makes more than one: when all N
  await their load, N loads are in flight. Whatever the outcome of its load, an
  invocation settles as fulfilled.
\<close>

theorem each_invocation_loads:
  assumes "run_schedule evs (h0, replicate N NotStarted) = (h, ts)"
  shows "length ts = N
       \<and> load_calls h0 + awaiting_load ts \<le> load_calls h
       \<and> load_calls h \<le> load_calls h0 + N
       \<and> (ts = replicate N AwaitLoad \<longrightarrow> load_calls h = load_calls h0 + N)
       \<and> (\<forall>r g. fst (loadFFmpeg_step r AwaitLoad g) = Settled Fulfilled)"
proof -
  let ?st = "(h0, replicate N NotStarted)"
  have len: "length ts = N"
    using length_run_schedule [of evs ?st] assms by simp
  have "load_calls h0 + awaiting_load (snd ?st) \<le> load_calls (fst ?st)"
    and "load_calls (fst ?st) \<le> load_calls h0 + awaiting_load (snd ?st) + settled (snd ?st)"
    by (simp_all add: awaiting_load_def)
  from run_schedule_load_calls [OF this, of evs] assms
  have lo: "load_calls h0 + awaiting_load ts \<le> load_calls h"
    and hi: "load_calls h \<le> load_calls h0 + awaiting_load ts + settled ts"
    by simp_all
  from hi awaiting_settled_le [of ts] len have up: "load_calls h \<le> load_calls h0 + N"
    by simp
  have "load_calls h = load_calls h0 + N" if "ts = replicate N AwaitLoad"
  proof -
    from that have "awaiting_load ts = N" by (simp add: awaiting_load_def)
    with lo up show ?thesis by simp
  qed
  moreover have "\<forall>r g. fst (loadFFmpeg_step r AwaitLoad g) = Settled Fulfilled"
    by (simp add: loadFFmpeg_step_def split: option.split)
  ultimately show ?thesis using len lo up by simp
qed

theorem each_invocation_loads_witness:
  "run_schedule [(0, None), (1, None), (2, None), (0, None), (1, None), (2, None),
                 (2, None), (1, None), (0, None)]
       (hook_init, replicate 3 NotStarted)
     = (\<lparr>hook_loading = True,
         listeners = [js ''log'', js ''progress'', js ''log'', js ''progress'',
                      js ''log'', js ''progress''],
         load_calls = 3, hook_console = []\<rparr>,
        replicate 3 AwaitLoad)
   \<and> load_calls \<lparr>hook_loading = True,
         listeners = [js ''log'', js ''progress'', js ''log'', js ''progress'',
                      js ''log'', js ''progress''],
         load_calls = 3, hook_console = []\<rparr> = load_calls hook_init + 3"
proof -
  let ?h = "\<lparr>hook_loading = True,
         listeners = [js ''log'', js ''progress'', js ''log'', js ''progress'',
                      js ''log'', js ''progress''],
         load_calls = 3, hook_console = []\<rparr>"
  have r: "run_schedule [(0, None), (1, None), (2, None), (0, None), (1, None), (2, None),
                 (2, None), (1, None), (0, None)]
       (hook_init, replicate 3 NotStarted) = (?h, replicate 3 AwaitLoad)"
    by code_simp
  from each_invocation_loads [OF r] r show ?thesis by simp
qed

section \<open>The escaping of the lyrics\<close>

lemma unescape_plain: "c \<noteq> backslash \<Longrightarrow> unescape (c # r) = c # unescape r"
  by (cases r) simp_all

lemma escapedLyrics_Cons:
  "escapedLyrics (c # t) =
     (if c = quote then [backslash, quote]
      else if c = newline then [backslash, letter_n] else [c]) @ escapedLyrics t"
  by (simp add: escapedLyrics_def replace_all_def quote_def newline_def backslash_def)

text \<open>
  The escaping is undone by \<open>unescape\<close> on every text without a backslash: the source
  escapes the quote and the newline with a backslash, and the backslash itself with
  nothing.
\<close>

lemma unescape_escapedLyrics:
  "backslash \<notin> set t \<Longrightarrow> unescape (escapedLyrics t) = t"
proof (induction t)
  case Nil
  then show ?case by (simp add: escapedLyrics_def replace_all_def)
next
  case (Cons c t)
  then have ih: "unescape (escapedLyrics t) = t" and c: "c \<noteq> backslash" by auto
  show ?case
  proof (cases "c = quote \<or> c = newline")
    case True
    with ih show ?thesis
      by (auto simp: escapedLyrics_Cons quote_def newline_def letter_n_def backslash_def)
  next
    case False
    with ih c show ?thesis by (simp add: escapedLyrics_Cons unescape_plain)
  qed
qed

text \<open>
  C4. The law fails: the two texts above are escaped to the same metadata arguments,
  so nothing that reads the argument back can return both. \<open>unescape\<close> returns the
  second for the first.
\<close>

theorem escape_collision:
  "lyrics_backslash_n \<noteq> lyrics_two_newlines
   \<and> quote \<in> set lyrics_backslash_n \<and> newline \<in> set lyrics_backslash_n
   \<and> quote \<in> set lyrics_two_newlines \<and> newline \<in> set lyrics_two_newlines
   \<and> trim lyrics_backslash_n = lyrics_backslash_n
   \<and> trim lyrics_two_newlines = lyrics_two_newlines
   \<and> escapedLyrics (trim lyrics_backslash_n) = escapedLyrics (trim lyrics_two_newlines)
   \<and> mp3_args lyrics_backslash_n = mp3_args lyrics_two_newlines
   \<and> unescape (escapedLyrics (trim lyrics_backslash_n)) = lyrics_two_newlines"
  by code_simp

end
